theory Spec2Isabelle
  imports Complex_Main "HOL-Library.AList"
begin

section \<open>Host-language primitives used by the value model\<close>

text \<open>
  Go's \<open>int64\<close> is modelled as \<open>int\<close> with the two's complement wrap-around written
  out: \<open>wrap64\<close> maps the mathematical result of an operation to the value the machine
  keeps.
\<close>

type_synonym int64 = int



text \<open>
  \<open>time.Time\<close>, by what \<open>UnixNano\<close> reads of it: the seconds since the Unix epoch (an
  \<open>int64\<close>) and the nanoseconds within that second, in \<open>[0, 999999999]\<close>.
  \<open>UnixNano\<close> is \<open>unixSec * 1e9 + nsec\<close> computed in \<open>int64\<close>.
\<close>

record time =
  unixSec :: int64
  nsec :: int


text \<open>
  A \<open>float64\<close> by the number it denotes. The conversion \<open>float64(x)\<close> of an \<open>int64\<close>
  rounds to the nearest value with a 53-bit significand, ties to even.
\<close>

datatype float64 = Float64 real | NaN | PosInf | NegInf












section \<open>value.go: TimeValue\<close>




section \<open>value.go: the Value union\<close>

text \<open>
  The concrete types that implement the \<open>Value\<close> interface, each with its payload \<open>V\<close>
  (the cached reflection value \<open>rv\<close> carries no information of its own). The payload of
  a \<open>StructValue\<close> is an arbitrary \<open>interface{}\<close> and stays opaque. A \<open>Value\<close> held in
  an interface variable may also be \<open>nil\<close>: such a variable is a \<open>Value option\<close>.
\<close>

typedecl go_interface

datatype Value =
    NumberValue float64
  | IntValue int64
  | BoolValue bool
  | StringValue string
  | StringsValue "string list"
  | MapIntValue "string \<rightharpoonup> int64"
  | StructValue go_interface
  | TimeValue time
  | ErrorValue string
  | NilValue

definition StringValue_ToString :: "string \<Rightarrow> string" where
  "StringValue_ToString V = V"

section \<open>Rows, messages and columns as the operators consume them\<close>

text \<open>
  The packages \<open>datasource\<close>, \<open>expr\<close> and \<open>vm\<close> are collaborators of the operators. Their
  data is modelled by the fields and methods the operators use:
  \<^item> a \<open>driver.Value\<close> is an \<open>interface{}\<close>: \<open>None\<close> is \<open>nil\<close>, \<open>Some r\<close> a raw value of
    the driver's (type \<open>'r\<close>);
  \<^item> an expression \<open>Node\<close> is a value of type \<open>'n\<close>, and \<open>vm.Eval\<close> is a parameter
    \<open>eval\<close> of every operator that calls it: it returns a \<open>Value\<close> (possibly \<open>nil\<close>) and
    the flag \<open>ok\<close>;
  \<^item> \<open>value.NewValue\<close>, which lifts a raw value, is the parameter \<open>newValue\<close> of the
    projection, which only passes its result on.
\<close>

record 'r SqlDriverMessageMap =
  IdVal :: nat
  Values :: "'r option list"
  ColIndex :: "(string \<times> int) list"
  Key :: string

text \<open>Modelled from the spec: \<open>NewSqlDriverMessageMap(id, values, colIndex)\<close> builds the row
  envelope of section 3.2 with these three fields; the key slot is still empty.\<close>

definition NewSqlDriverMessageMap ::
  "nat \<Rightarrow> 'r option list \<Rightarrow> (string \<times> int) list \<Rightarrow> 'r SqlDriverMessageMap" where
  "NewSqlDriverMessageMap i vals colIndex =
     \<lparr>IdVal = i, Values = vals, ColIndex = colIndex, Key = []\<rparr>"

text \<open>Modelled from the spec: \<open>SetKeyHashed(k)\<close> stores the key that \<open>Key()\<close> returns
  (section 4.2).\<close>

definition SetKeyHashed :: "string \<Rightarrow> 'r SqlDriverMessageMap \<Rightarrow> 'r SqlDriverMessageMap" where
  "SetKeyHashed k m = m\<lparr>Key := k\<rparr>"

text \<open>Modelled from the spec: \<open>Row()\<close> is the map from alias to raw value derived from the
  values and the column index (section 4.2); an alias whose index is no position of the
  row has no entry.\<close>

definition Row :: "'r SqlDriverMessageMap \<Rightarrow> (string \<rightharpoonup> 'r option)" where
  "Row m k = (case map_of (ColIndex m) k of
                None \<Rightarrow> None
              | Some i \<Rightarrow> if 0 \<le> i \<and> i < int (length (Values m))
                          then Some (Values m ! nat i) else None)"

text \<open>
  The dynamic types a \<open>datasource.Message\<close> has in the operators' type switches. A
  \<open>ContextUrlValues\<close> is given by its \<open>Row()\<close>, a \<open>ContextSimple\<close> by its \<open>Data\<close>: both
  map a name to a \<open>Value\<close>. \<open>OtherMessage\<close> is any other implementation (named by its
  type), \<open>NilMessage\<close> the \<open>nil\<close> interface.
\<close>

datatype 'r message =
    SqlDriverMessageMap "'r SqlDriverMessageMap"
  | ContextUrlValues "string \<rightharpoonup> Value option"
  | ContextSimple "string \<rightharpoonup> Value option"
  | OtherMessage string
  | NilMessage

record 'n Column =
  As :: string
  ColKey :: string
  SourceIndex :: int
  ParentIndex :: int
  Star :: bool
  Guard :: "'n option"
  Expr :: 'n

text \<open>\<open>ColKey\<close> is what the method \<open>Key()\<close> of a column returns. A \<open>SqlSource\<close> by its
  alias, the columns of its \<open>Source\<close> and its \<open>JoinNodes()\<close>.\<close>

record 'n SqlSource =
  Alias :: string
  Columns :: "'n Column list"
  JoinNodes :: "'n list"

section \<open>Tasks, channels and diagnostics\<close>

text \<open>
  A task runs against a schedule: the list of the events that resolve, in turn, each
  blocking operation the task reaches.
  \<^item> \<open>SigQuit\<close>: the signal channel \<open>SigChan()\<close> is closed and the \<open>select\<close> takes that case;
  \<^item> \<open>InClosed\<close>: the input channel is closed (\<open>ok = false\<close>);
  \<^item> \<open>Recv msg\<close>: the input channel delivers \<open>msg\<close>;
  \<^item> \<open>Taken\<close>: the consumer of the output channel takes the message being sent.
  An event that cannot resolve the operation at hand, or a schedule that ends, leaves
  the task blocked there for good: \<open>Run\<close> never returns (\<open>NeverReturns\<close>). A bare send
  \<open>ch <- m\<close> is resolved by \<open>Taken\<close> only; a send inside a \<open>select\<close> with \<open>SigChan()\<close> is
  resolved by \<open>Taken\<close> or by \<open>SigQuit\<close>. \<open>Panicked\<close>: a run-time panic unwinds \<open>Run\<close> to its
  deferred \<open>context.Recover()\<close>.
\<close>

datatype 'm event = SigQuit | InClosed | Recv 'm | Taken

datatype 'e outcome = Returned "'e option" | Panicked | NeverReturns

datatype diag = Errorf string | Warnf string | Debugf string

record ('m, 'e) run =
  sent :: "'m list"
  diags :: "diag list"
  outcome :: "'e outcome"

definition stop :: "'e outcome \<Rightarrow> ('m, 'e) run" where
  "stop oc = \<lparr>sent = [], diags = [], outcome = oc\<rparr>"

definition send :: "'m \<Rightarrow> ('m, 'e) run \<Rightarrow> ('m, 'e) run" where
  "send m r = r\<lparr>sent := m # sent r\<rparr>"

definition log :: "diag \<Rightarrow> ('m, 'e) run \<Rightarrow> ('m, 'e) run" where
  "log d r = r\<lparr>diags := d # diags r\<rparr>"

datatype 'r error =
    JoinKeyWrongType "'r message"
  | JoinNoKey "string \<rightharpoonup> 'r option"
  | JoinWrongType "'r message"

text \<open>\<open>strings.Join(elems, sep)\<close>.\<close>

fun strings_Join :: "string list \<Rightarrow> string \<Rightarrow> string" where
  "strings_Join [] sep = []"
| "strings_Join [a] sep = a"
| "strings_Join (a # b # rest) sep = a @ sep @ strings_Join (b # rest) sep"

section \<open>join.go: JoinKey\<close>

text \<open>
  The loop over the join nodes (lines 85-94): the \<open>ToString()\<close> forms of the evaluated
  values in node order; \<open>EvalFailed\<close> when an evaluation reports \<open>ok = false\<close> (the
  \<open>break msgTypeSwitch\<close>); \<open>NilDeref\<close> when an evaluation reports \<open>ok\<close> with a \<open>nil\<close>
  value, on which the method call \<open>joinVal.ToString()\<close> panics. \<open>ToString\<close> is a method of
  the interface \<open>Value\<close>: the parameter \<open>toString\<close>.
\<close>

datatype key_vals = KeyVals "string list" | EvalFailed | NilDeref

fun join_vals ::
  "('v \<Rightarrow> string) \<Rightarrow> ('r SqlDriverMessageMap \<Rightarrow> 'n \<Rightarrow> 'v option \<times> bool)
     \<Rightarrow> 'r SqlDriverMessageMap \<Rightarrow> 'n list \<Rightarrow> key_vals" where
  "join_vals toString eval mt [] = KeyVals []"
| "join_vals toString eval mt (node # nodes) =
     (case eval mt node of
        (joinVal, False) \<Rightarrow> EvalFailed
      | (None, True) \<Rightarrow> NilDeref
      | (Some joinVal, True) \<Rightarrow>
          (case join_vals toString eval mt nodes of
             KeyVals vals \<Rightarrow> KeyVals (toString joinVal # vals)
           | stopped \<Rightarrow> stopped))"

text \<open>
  \<open>JoinKey.Run\<close> (lines 62-105) against a schedule: the \<open>select\<close> on the signal and the
  input channel, the type switch, the key, and the bare send \<open>outCh <- mt\<close> of line 97.
  A message of another type ends the task with an error.
\<close>

fun JoinKey_Run ::
  "('v \<Rightarrow> string) \<Rightarrow> ('r SqlDriverMessageMap \<Rightarrow> 'n \<Rightarrow> 'v option \<times> bool) \<Rightarrow> 'n list
     \<Rightarrow> 'r message event list \<Rightarrow> ('r message, 'r error) run" where
  "JoinKey_Run toString eval joinNodes [] = stop NeverReturns"
| "JoinKey_Run toString eval joinNodes (SigQuit # evs) = stop (Returned None)"
| "JoinKey_Run toString eval joinNodes (InClosed # evs) = stop (Returned None)"
| "JoinKey_Run toString eval joinNodes (Taken # evs) = stop NeverReturns"
| "JoinKey_Run toString eval joinNodes (Recv msg # evs) =
     (case msg of
        SqlDriverMessageMap mt \<Rightarrow>
          (case join_vals toString eval mt joinNodes of
             EvalFailed \<Rightarrow>
               log (Errorf ''could not evaluate: %T %#v   %v'')
                 (JoinKey_Run toString eval joinNodes evs)
           | NilDeref \<Rightarrow> stop Panicked
           | KeyVals vals \<Rightarrow>
               (let key = strings_Join vals [CHR 0x00] in
                case evs of
                  Taken # evs' \<Rightarrow>
                    send (SqlDriverMessageMap (SetKeyHashed key mt))
                      (JoinKey_Run toString eval joinNodes evs')
                | _ \<Rightarrow> stop NeverReturns))
      | _ \<Rightarrow> stop (Returned (Some (JoinKeyWrongType msg))))"

section \<open>join.go: JoinMerge\<close>

text \<open>
  \<open>valIndexing\<close> (lines 302-315) copies the source row's values to their positions in
  the output row. Indexing a slice outside \<open>[0, len)\<close> panics: \<open>Inl IndexOutOfRange\<close>.
  The warning of line 308 is a diagnostic only and is left out.
\<close>

datatype panic = IndexOutOfRange

fun valIndexing ::
  "'r option list \<Rightarrow> 'r option list \<Rightarrow> 'n Column list \<Rightarrow> panic + 'r option list" where
  "valIndexing valOut valSource [] = Inr valOut"
| "valIndexing valOut valSource (col # cols) =
     (if ParentIndex col < 0 then valIndexing valOut valSource cols
      else if ParentIndex col \<ge> int (length valOut) then valIndexing valOut valSource cols
      else if 0 \<le> SourceIndex col \<and> SourceIndex col < int (length valSource)
        then valIndexing (valOut[nat (ParentIndex col) := valSource ! nat (SourceIndex col)])
               valSource cols
      else Inl IndexOutOfRange)"

text \<open>The body of the two loops of \<open>mergeValueMessages\<close> (lines 291-294), for one pair
  \<open>(lm, rm)\<close>; \<open>make([]driver.Value, n)\<close> is \<open>n\<close> times \<open>nil\<close>.\<close>

definition mergePair ::
  "(string \<times> int) list \<Rightarrow> 'n Column list \<Rightarrow> 'n Column list
     \<Rightarrow> 'r SqlDriverMessageMap \<Rightarrow> 'r SqlDriverMessageMap \<Rightarrow> panic + 'r SqlDriverMessageMap" where
  "mergePair colIndex lcols rcols lm rm =
     (case valIndexing (replicate (length colIndex) None) (Values lm) lcols of
        Inl p \<Rightarrow> Inl p
      | Inr vals \<Rightarrow>
          (case valIndexing vals (Values rm) rcols of
             Inl p \<Rightarrow> Inl p
           | Inr vals' \<Rightarrow> Inr (NewSqlDriverMessageMap 0 vals' colIndex)))"

fun mergeInner ::
  "(string \<times> int) list \<Rightarrow> 'n Column list \<Rightarrow> 'n Column list
     \<Rightarrow> 'r SqlDriverMessageMap \<Rightarrow> 'r SqlDriverMessageMap list
     \<Rightarrow> panic + 'r SqlDriverMessageMap list" where
  "mergeInner colIndex lcols rcols lm [] = Inr []"
| "mergeInner colIndex lcols rcols lm (rm # rmsgs) =
     (case mergePair colIndex lcols rcols lm rm of
        Inl p \<Rightarrow> Inl p
      | Inr newMsg \<Rightarrow>
          (case mergeInner colIndex lcols rcols lm rmsgs of
             Inl p \<Rightarrow> Inl p
           | Inr out \<Rightarrow> Inr (newMsg # out)))"

fun mergeValueMessages ::
  "(string \<times> int) list \<Rightarrow> 'n Column list \<Rightarrow> 'n Column list
     \<Rightarrow> 'r SqlDriverMessageMap list \<Rightarrow> 'r SqlDriverMessageMap list
     \<Rightarrow> panic + 'r SqlDriverMessageMap list" where
  "mergeValueMessages colIndex lcols rcols [] rmsgs = Inr []"
| "mergeValueMessages colIndex lcols rcols (lm # lmsgs) rmsgs =
     (case mergeInner colIndex lcols rcols lm rmsgs of
        Inl p \<Rightarrow> Inl p
      | Inr row \<Rightarrow>
          (case mergeValueMessages colIndex lcols rcols lmsgs rmsgs of
             Inl p \<Rightarrow> Inl p
           | Inr out \<Rightarrow> Inr (row @ out)))"

text \<open>The column index of lines 171-180: \<open>colIndex[alias + "." + col.Key()] = col.ParentIndex\<close>
  for the columns of one source. A Go map keeps one entry per key.\<close>

definition indexColumns ::
  "'n SqlSource \<Rightarrow> (string \<times> int) list \<Rightarrow> (string \<times> int) list" where
  "indexColumns stmt colIndex =
     foldl (\<lambda>ci col. AList.update (Alias stmt @ ''.'' @ ColKey col) (ParentIndex col) ci)
       colIndex (Columns stmt)"

text \<open>
  One ingest worker (lines 193-224 and 226-258), against the schedule of its own
  \<open>select\<close>. It ends in one of four ways: \<open>Done\<close>, the input was closed and the worker
  called \<open>wg.Done()\<close>; \<open>Quit\<close>, it saw the signal and returned; \<open>Fatal\<close>, it stored
  \<open>fatalErr\<close>, closed \<open>sigCh\<close> and returned; \<open>Stuck\<close>, it waits at the \<open>select\<close> for good.
  Only \<open>Done\<close> calls \<open>wg.Done()\<close>. The hash table \<open>map[string][]*SqlDriverMessageMap\<close>
  is a list of entries with one entry per key. The warnings of the workers are
  diagnostics only and are left out.
\<close>

datatype 'r ingest_end = Done | Quit | Fatal "'r error" | Stuck

type_synonym 'r table = "(string \<times> 'r SqlDriverMessageMap list) list"

definition bucket :: "'r table \<Rightarrow> string \<Rightarrow> 'r SqlDriverMessageMap list" where
  "bucket h key = (case map_of h key of None \<Rightarrow> [] | Some msgs \<Rightarrow> msgs)"

fun ingest :: "'r table \<Rightarrow> 'r message event list \<Rightarrow> 'r table \<times> 'r ingest_end" where
  "ingest h [] = (h, Stuck)"
| "ingest h (SigQuit # evs) = (h, Quit)"
| "ingest h (InClosed # evs) = (h, Done)"
| "ingest h (Taken # evs) = (h, Stuck)"
| "ingest h (Recv msg # evs) =
     (case msg of
        SqlDriverMessageMap mt \<Rightarrow>
          (let key = Key mt in
           if key = [] then (h, Fatal (JoinNoKey (Row mt)))
           else ingest (AList.update key (bucket h key @ [mt]) h) evs)
      | _ \<Rightarrow> (h, Fatal (JoinWrongType msg)))"

text \<open>
  The emission loop (lines 261-276) over the entries of the left table in the order
  \<open>range\<close> visits them. The messages of one key are all merged before the first of them
  is sent; each gets the next id (a \<open>uint64\<close>) and is sent with a bare \<open>outCh <- msg\<close>.
\<close>

fun sendAll ::
  "nat \<Rightarrow> 'r SqlDriverMessageMap list \<Rightarrow> 'r message event list
     \<Rightarrow> 'r message list \<times> (nat \<times> 'r message event list) option" where
  "sendAll i [] evs = ([], Some (i, evs))"
| "sendAll i (msg # msgs) evs =
     (case evs of
        Taken # evs' \<Rightarrow>
          (case sendAll ((i + 1) mod 2 ^ 64) msgs evs' of
             (out, rest) \<Rightarrow> (SqlDriverMessageMap (msg\<lparr>IdVal := i\<rparr>) # out, rest))
      | _ \<Rightarrow> ([], None))"

fun emission ::
  "(string \<times> int) list \<Rightarrow> 'n Column list \<Rightarrow> 'n Column list \<Rightarrow> nat
     \<Rightarrow> 'r table \<Rightarrow> 'r table \<Rightarrow> 'r message event list \<Rightarrow> ('r message, 'r error) run" where
  "emission colIndex lcols rcols i [] rh evs = stop (Returned None)"
| "emission colIndex lcols rcols i ((keyLeft, valLeft) # lh) rh evs =
     (case map_of rh keyLeft of
        None \<Rightarrow> emission colIndex lcols rcols i lh rh evs
      | Some valRight \<Rightarrow>
          (case mergeValueMessages colIndex lcols rcols valLeft valRight of
             Inl p \<Rightarrow> stop Panicked
           | Inr msgs \<Rightarrow>
               (case sendAll i msgs evs of
                  (out, None) \<Rightarrow> \<lparr>sent = out, diags = [], outcome = NeverReturns\<rparr>
                | (out, Some (i', evs')) \<Rightarrow>
                    (let r = emission colIndex lcols rcols i' lh rh evs'
                     in r\<lparr>sent := out @ sent r\<rparr>))))"

text \<open>
  \<open>JoinMerge.Run\<close>. The two workers run against the schedules \<open>levs\<close> and \<open>revs\<close>, the
  emission against \<open>oevs\<close>; \<open>visit\<close> is the order in which \<open>range lh\<close> visits the left
  table. \<open>wg.Wait()\<close> returns once both workers have called \<open>wg.Done()\<close>; the function
  then runs the emission loop and ends with \<open>return nil\<close> (line 277). What the workers
  leave behind: \<open>fatalErr\<close>, the errors they stored in the variable \<open>fatalErr\<close> (the left
  worker's first; the order of two stores is not determined), and \<open>sigClosed\<close>, whether
  one of them closed \<open>sigCh\<close>.
\<close>

record ('m, 'e) merge_run = "('m, 'e) run" +
  fatalErr :: "'e list"
  sigClosed :: bool

definition fatal_of :: "'r ingest_end \<Rightarrow> 'r error list" where
  "fatal_of e = (case e of Fatal err \<Rightarrow> [err] | _ \<Rightarrow> [])"

definition JoinMerge_Run ::
  "'n SqlSource \<Rightarrow> 'n SqlSource \<Rightarrow> ('r table \<Rightarrow> 'r table)
     \<Rightarrow> 'r message event list \<Rightarrow> 'r message event list \<Rightarrow> 'r message event list
     \<Rightarrow> ('r message, 'r error) merge_run" where
  "JoinMerge_Run leftStmt rightStmt visit levs revs oevs =
     (let colIndex = indexColumns rightStmt (indexColumns leftStmt []);
          (lh, lend) = ingest [] levs;
          (rh, rend) = ingest [] revs;
          fatal = fatal_of lend @ fatal_of rend;
          closed = (fatal \<noteq> []);
          r = (if lend = Done \<and> rend = Done
               then emission colIndex (Columns leftStmt) (Columns rightStmt) 0 (visit lh) rh oevs
               else stop NeverReturns)
      in run.extend r \<lparr>fatalErr = fatal, sigClosed = closed\<rparr>)"

section \<open>projection.go: Projection\<close>

text \<open>The write context \<open>ContextSimple\<close> is its \<open>Data\<close>, a map from a name to a \<open>Value\<close>.\<close>

type_synonym write_context = "string \<rightharpoonup> Value option"

text \<open>
  Modelled from the spec: \<open>ContextSimple.Put(col, readerMsg, v)\<close> writes \<open>v\<close> under
  \<open>col.As\<close>, or under the column's derived key (\<open>col.Key()\<close>) if \<open>As\<close> is empty (section
  4.2). For the column \<open>&expr.Column{As: k}\<close> of a star expansion both are \<open>k\<close>.
\<close>

definition Put :: "'n Column \<Rightarrow> Value option \<Rightarrow> write_context \<Rightarrow> write_context" where
  "Put col v data = data((if As col \<noteq> [] then As col else ColKey col) \<mapsto> v)"

text \<open>
  The guard of a column (lines 59-73 and 100-114, the same text twice): whether the
  column is filtered out, and the diagnostic of a failed evaluation. The type switch
  looks at the value whatever \<open>ok\<close> is. \<open>Val()\<close>, which \<open>value.go\<close> does not define, is taken
  to return the payload \<open>V\<close> of the \<open>BoolValue\<close>.
\<close>

definition guardFilters ::
  "('m \<Rightarrow> 'n \<Rightarrow> Value option \<times> bool) \<Rightarrow> 'm \<Rightarrow> 'n Column \<Rightarrow> bool \<times> diag list" where
  "guardFilters eval mt col =
     (case Guard col of
        None \<Rightarrow> (False, [])
      | Some guard \<Rightarrow>
          (case eval mt guard of
             (ifColValue, ok) \<Rightarrow>
               (case ifColValue of
                  Some (BoolValue b) \<Rightarrow> b = False
                | _ \<Rightarrow> False,
                if ok then [] else [Errorf ''Could not evaluate if:   %v''])))"

text \<open>One column of a \<open>SqlDriverMessageMap\<close> row (lines 55-89).\<close>

definition projectColumnMap ::
  "('r message \<Rightarrow> 'n \<Rightarrow> Value option \<times> bool) \<Rightarrow> ('r option \<Rightarrow> Value)
     \<Rightarrow> 'r SqlDriverMessageMap \<Rightarrow> write_context \<times> diag list \<Rightarrow> 'n Column
     \<Rightarrow> write_context \<times> diag list" where
  "projectColumnMap eval newValue mt acc col =
     (case acc of (data, ds) \<Rightarrow>
        if ParentIndex col < 0 then (data, ds)
        else
          (case guardFilters eval (SqlDriverMessageMap mt) col of
             (filtered, gd) \<Rightarrow>
               if filtered then (data, ds @ gd)
               else if Star col
                 then (data ++ (\<lambda>k. map_option (\<lambda>v. Some (newValue v)) (Row mt k)), ds @ gd)
               else
                 (case eval (SqlDriverMessageMap mt) (Expr col) of
                    (v, ok) \<Rightarrow>
                      if \<not> ok
                        then (data,
                              ds @ gd @ [Warnf ''failed eval key=%v  val=%#v expr:%s   mt:%#v''])
                      else if v = None
                        then (Put col v data, ds @ gd @ [Debugf ''evaled: key=%v  val=%v''])
                      else (Put col v data, ds @ gd))))"

text \<open>One column of a \<open>ContextUrlValues\<close> row (lines 99-126).\<close>

definition projectColumnUrl ::
  "('r message \<Rightarrow> 'n \<Rightarrow> Value option \<times> bool)
     \<Rightarrow> (string \<rightharpoonup> Value option) \<Rightarrow> write_context \<times> diag list \<Rightarrow> 'n Column
     \<Rightarrow> write_context \<times> diag list" where
  "projectColumnUrl eval row acc col =
     (case acc of (data, ds) \<Rightarrow>
        (case guardFilters eval (ContextUrlValues row) col of
           (filtered, gd) \<Rightarrow>
             if filtered then (data, ds @ gd)
             else if Star col then (data ++ row, ds @ gd)
             else
               (case eval (ContextUrlValues row) (Expr col) of
                  (v, ok) \<Rightarrow> if ok then (Put col v data, ds @ gd) else (data, ds @ gd))))"

text \<open>The type switch of the handler (lines 46-131): the message \<open>outMsg\<close> and the
  diagnostics. \<open>outMsg\<close> is declared without a value, so it is \<open>nil\<close> unless a case
  assigns it.\<close>

definition project ::
  "('r message \<Rightarrow> 'n \<Rightarrow> Value option \<times> bool) \<Rightarrow> ('r option \<Rightarrow> Value) \<Rightarrow> 'n Column list
     \<Rightarrow> 'r message \<Rightarrow> 'r message \<times> diag list" where
  "project eval newValue columns msg =
     (case msg of
        SqlDriverMessageMap mt \<Rightarrow>
          (case foldl (projectColumnMap eval newValue mt) (Map.empty, []) columns of
             (data, ds) \<Rightarrow> (ContextSimple data, ds))
      | ContextUrlValues row \<Rightarrow>
          (case foldl (projectColumnUrl eval row) (Map.empty, []) columns of
             (data, ds) \<Rightarrow> (ContextSimple data, ds))
      | _ \<Rightarrow> (NilMessage, [Errorf ''could not project msg:  %T'']))"

text \<open>
  The handler built by \<open>projectionEvaluator\<close>, with the event that resolves its final
  \<open>select\<close> (lines 134-139): \<open>Some True\<close> and \<open>Some False\<close> are its return values, \<open>None\<close>
  stands for a handler that never returns.
\<close>

record 'm handled =
  emitted :: "'m list"
  warnings :: "diag list"
  result :: "bool option"

definition projectionEvaluator ::
  "('r message \<Rightarrow> 'n \<Rightarrow> Value option \<times> bool) \<Rightarrow> ('r option \<Rightarrow> Value) \<Rightarrow> 'n Column list
     \<Rightarrow> 'r message \<Rightarrow> 'r message event option \<Rightarrow> 'r message handled" where
  "projectionEvaluator eval newValue columns msg ev =
     (case project eval newValue columns msg of
        (outMsg, ds) \<Rightarrow>
          (case ev of
             Some Taken \<Rightarrow> \<lparr>emitted = [outMsg], warnings = ds, result = Some True\<rparr>
           | Some SigQuit \<Rightarrow> \<lparr>emitted = [], warnings = ds, result = Some False\<rparr>
           | _ \<Rightarrow> \<lparr>emitted = [], warnings = ds, result = None\<rparr>))"

text \<open>
  Modelled from the spec: the default \<open>Run\<close> loop of a task with a \<open>Handler\<close> (section
  4.3) reads from \<open>msgInCh\<close>, calls the handler, and leaves the loop when the handler
  returns false or the input closes.
\<close>

fun Projection_Run ::
  "('r message \<Rightarrow> 'n \<Rightarrow> Value option \<times> bool) \<Rightarrow> ('r option \<Rightarrow> Value) \<Rightarrow> 'n Column list
     \<Rightarrow> 'r message event list \<Rightarrow> ('r message, 'r error) run" where
  "Projection_Run eval newValue columns [] = stop NeverReturns"
| "Projection_Run eval newValue columns (SigQuit # evs) = stop (Returned None)"
| "Projection_Run eval newValue columns (InClosed # evs) = stop (Returned None)"
| "Projection_Run eval newValue columns (Taken # evs) = stop NeverReturns"
| "Projection_Run eval newValue columns (Recv msg # evs) =
     (let h = projectionEvaluator eval newValue columns msg
                (case evs of [] \<Rightarrow> None | ev # _ \<Rightarrow> Some ev);
          r = (case result h of
                 Some True \<Rightarrow> Projection_Run eval newValue columns (tl evs)
               | Some False \<Rightarrow> stop (Returned None)
               | None \<Rightarrow> stop NeverReturns)
      in r\<lparr>sent := emitted h @ sent r, diags := warnings h @ diags r\<rparr>)"

section \<open>Predicates and example inputs of the properties\<close>

text \<open>The precondition of \<open>valIndexing\<close>: every column whose \<open>ParentIndex\<close> is a position
  of the output row has a \<open>SourceIndex\<close> that is a position of the source row.\<close>

definition indexable :: "'n Column list \<Rightarrow> nat \<Rightarrow> 'r option list \<Rightarrow> bool" where
  "indexable cols n valSource =
     list_all (\<lambda>col. 0 \<le> ParentIndex col \<and> ParentIndex col < int n
                 \<longrightarrow> 0 \<le> SourceIndex col \<and> SourceIndex col < int (length valSource)) cols"



text \<open>
  Modelled from the spec: the contract \<open>Eval(reader, node) -> (Value, ok)\<close> of the
  expression evaluator (section 6), for the nodes of the scenarios of section 8: an
  identifier reads the row by name, a literal is its value, an equality compares two
  evaluated values. The rows of the scenarios hold values of the union, which
  \<open>NewValue\<close> passes on; \<open>nil\<close> becomes \<open>NilValue\<close>.
\<close>

datatype node = Ident string | IntLit int | Equals node node

definition passValue :: "Value option \<Rightarrow> Value" where
  "passValue goVal = (case goVal of None \<Rightarrow> NilValue | Some val \<Rightarrow> val)"

fun evalNode :: "Value message \<Rightarrow> node \<Rightarrow> Value option \<times> bool" where
  "evalNode msg (Ident name) =
     (case msg of
        SqlDriverMessageMap mt \<Rightarrow>
          (case Row mt name of Some v \<Rightarrow> (Some (passValue v), True) | None \<Rightarrow> (None, False))
      | ContextUrlValues row \<Rightarrow>
          (case row name of Some v \<Rightarrow> (v, True) | None \<Rightarrow> (None, False))
      | _ \<Rightarrow> (None, False))"
| "evalNode msg (IntLit i) = (Some (IntValue i), True)"
| "evalNode msg (Equals a b) =
     (case (evalNode msg a, evalNode msg b) of
        ((Some x, True), (Some y, True)) \<Rightarrow> (Some (BoolValue (x = y)), True)
      | _ \<Rightarrow> (None, False))"

definition column :: "string \<Rightarrow> int \<Rightarrow> int \<Rightarrow> node option \<Rightarrow> node Column" where
  "column name sourceIndex parentIndex guard =
     \<lparr>As = name, ColKey = name, SourceIndex = sourceIndex, ParentIndex = parentIndex,
      Star = False, Guard = guard, Expr = Ident name\<rparr>"

text \<open>The row of the composite-key scenario, and an evaluator that reads a column of a
  row of strings by its name.\<close>

definition annLee :: "string SqlDriverMessageMap" where
  "annLee = \<lparr>IdVal = 0, Values = [Some ''ann'', Some ''lee''],
             ColIndex = [(''first'', 0), (''last'', 1)], Key = []\<rparr>"

definition readColumn :: "string SqlDriverMessageMap \<Rightarrow> string \<Rightarrow> string option \<times> bool" where
  "readColumn mt name = (case Row mt name of Some v \<Rightarrow> (v, True) | None \<Rightarrow> (None, False))"

text \<open>The tables of the cardinality scenario: rows \<open>{k, v}\<close> keyed by \<open>k\<close>, two on the
  left under \<open>x\<close>, on the right two under \<open>x\<close> and one under \<open>y\<close>.\<close>

definition kv :: "string \<Rightarrow> int \<Rightarrow> Value SqlDriverMessageMap" where
  "kv k v = \<lparr>IdVal = 0, Values = [Some (StringValue k), Some (IntValue v)],
            ColIndex = [(''k'', 0), (''v'', 1)], Key = k\<rparr>"

definition leftTable :: "Value table" where
  "leftTable = [(''x'', [kv ''x'' 1, kv ''x'' 2])]"

definition rightTable :: "Value table" where
  "rightTable = [(''x'', [kv ''x'' 9, kv ''x'' 8]), (''y'', [kv ''y'' 0])]"

definition leftStmt :: "node SqlSource" where
  "leftStmt = \<lparr>Alias = ''l'', Columns = [column ''k'' 0 0 None, column ''v'' 1 1 None],
               JoinNodes = [Ident ''k'']\<rparr>"

definition rightStmt :: "node SqlSource" where
  "rightStmt = \<lparr>Alias = ''r'', Columns = [column ''k'' 0 2 None, column ''v'' 1 3 None],
                JoinNodes = [Ident ''k'']\<rparr>"

text \<open>Columns for the four cases of \<open>valIndexing\<close>: a dropped column, a column beyond the
  output row, a column whose source position does not exist, and a column that is
  copied.\<close>

definition skipped :: "node Column" where
  "skipped = column ''a'' 7 (- 1) None"

definition beyond :: "node Column" where
  "beyond = column ''a'' 7 5 None"

definition unreadable :: "node Column" where
  "unreadable = column ''a'' 7 0 None"

definition copied :: "node Column" where
  "copied = column ''a'' 0 1 None"

text \<open>The row \<open>{a: 1, b: 2}\<close> of the guard scenario, as a \<open>SqlDriverMessageMap\<close> and as
  a \<open>ContextUrlValues\<close>; the column \<open>b\<close> guarded by \<open>a == 0\<close>; and two evaluators whose
  evaluation of an equality fails: one returns \<open>BoolValue false\<close> with \<open>ok = false\<close>, the
  other \<open>nil\<close>.\<close>

definition rowAB :: "Value SqlDriverMessageMap" where
  "rowAB = \<lparr>IdVal = 0, Values = [Some (IntValue 1), Some (IntValue 2)],
            ColIndex = [(''a'', 0), (''b'', 1)], Key = []\<rparr>"

definition urlAB :: "string \<rightharpoonup> Value option" where
  "urlAB = [''a'' \<mapsto> Some (IntValue 1), ''b'' \<mapsto> Some (IntValue 2)]"

definition guardedB :: "node Column" where
  "guardedB = column ''b'' 1 1 (Some (Equals (Ident ''a'') (IntLit 0)))"

definition failingGuard :: "Value message \<Rightarrow> node \<Rightarrow> Value option \<times> bool" where
  "failingGuard msg n =
     (case n of Equals a b \<Rightarrow> (Some (BoolValue False), False) | _ \<Rightarrow> evalNode msg n)"

definition nilGuard :: "Value message \<Rightarrow> node \<Rightarrow> Value option \<times> bool" where
  "nilGuard msg n = (case n of Equals a b \<Rightarrow> (None, False) | _ \<Rightarrow> evalNode msg n)"

section \<open>Verification: TimeValue\<close>

















section \<open>Verification: JoinMerge\<close>


lemma valIndexing_Inr_iff:
  "(\<exists>r. valIndexing valOut valSource cols = Inr r) \<longleftrightarrow> indexable cols (length valOut) valSource"
  by (induction cols arbitrary: valOut) (auto simp add: indexable_def)

lemma indexable_Cons:
  "indexable (col # cols) n src \<longleftrightarrow>
     (0 \<le> ParentIndex col \<and> ParentIndex col < int n
        \<longrightarrow> 0 \<le> SourceIndex col \<and> SourceIndex col < int (length src)) \<and> indexable cols n src"
  by (simp add: indexable_def)

text \<open>
  Claim C10. \<open>valIndexing\<close> checks the bounds of \<open>ParentIndex\<close> only. It returns without
  a panic exactly when every column whose \<open>ParentIndex\<close> is a position of \<open>valOut\<close> has a
  \<open>SourceIndex\<close> that is a position of \<open>valSource\<close>. A column with \<open>ParentIndex < 0\<close> or
  \<open>ParentIndex >= len(valOut)\<close> is skipped; a column with \<open>ParentIndex\<close> in range and
  \<open>SourceIndex\<close> out of range panics instead of being skipped; any other column is
  copied.
\<close>

theorem valIndexing_guards_ParentIndex_only:
  "((\<exists>r. valIndexing valOut valSource cols = Inr r)
      \<longleftrightarrow> (\<forall>col \<in> set cols. 0 \<le> ParentIndex col \<and> ParentIndex col < int (length valOut)
            \<longrightarrow> 0 \<le> SourceIndex col \<and> SourceIndex col < int (length valSource)))
   \<and> (ParentIndex c < 0 \<or> ParentIndex c \<ge> int (length valOut)
        \<longrightarrow> valIndexing valOut valSource (c # cols) = valIndexing valOut valSource cols)
   \<and> (0 \<le> ParentIndex c \<and> ParentIndex c < int (length valOut)
        \<and> \<not> (0 \<le> SourceIndex c \<and> SourceIndex c < int (length valSource))
        \<longrightarrow> valIndexing valOut valSource (c # cols) = Inl IndexOutOfRange)
   \<and> (0 \<le> ParentIndex c \<and> ParentIndex c < int (length valOut)
        \<and> 0 \<le> SourceIndex c \<and> SourceIndex c < int (length valSource)
        \<longrightarrow> valIndexing valOut valSource (c # cols)
            = valIndexing (valOut[nat (ParentIndex c) := valSource ! nat (SourceIndex c)]) valSource cols)"
proof -
  have "(\<exists>r. valIndexing valOut valSource cols = Inr r)
      \<longleftrightarrow> (\<forall>col \<in> set cols. 0 \<le> ParentIndex col \<and> ParentIndex col < int (length valOut)
            \<longrightarrow> 0 \<le> SourceIndex col \<and> SourceIndex col < int (length valSource))"
    unfolding valIndexing_Inr_iff indexable_def list_all_iff ..
  then show ?thesis by auto
qed

theorem valIndexing_guards_ParentIndex_only_witness:
  "valIndexing [None, None] [Some (1::nat)] [skipped, copied] = Inr [None, Some 1]
   \<and> valIndexing [None, None] [Some (1::nat)] [beyond, copied] = Inr [None, Some 1]
   \<and> valIndexing [None, None] [Some (1::nat)] [unreadable, copied] = Inl IndexOutOfRange
   \<and> indexable [skipped, beyond, copied] (length [None, None :: nat option]) [Some (1::nat)]
   \<and> (\<exists>r. valIndexing [None, None] [Some (1::nat)] [skipped, beyond, copied] = Inr r)"
  using valIndexing_guards_ParentIndex_only [of "[None, None]" "[Some (1::nat)]" "[copied]" skipped]
    valIndexing_guards_ParentIndex_only [of "[None, None]" "[Some (1::nat)]" "[copied]" beyond]
    valIndexing_guards_ParentIndex_only [of "[None, None]" "[Some (1::nat)]" "[copied]" unreadable]
    valIndexing_guards_ParentIndex_only [of "[None, None]" "[Some (1::nat)]" "[]" copied]
    valIndexing_guards_ParentIndex_only [of "[None, None]" "[Some (1::nat)]" "[skipped, beyond, copied]"]
  by (simp add: skipped_def beyond_def unreadable_def copied_def column_def indexable_def)
















lemma emission_returns_nil:
  "outcome (emission colIndex lcols rcols i lh rh evs) \<noteq> Returned (Some e)"
proof (induction lh arbitrary: i evs)
  case Nil
  then show ?case by (simp add: stop_def)
next
  case (Cons entry lh)
  obtain k l where "entry = (k, l)" by (cases entry)
  with Cons.IH show ?case
    by (simp add: stop_def Let_def split: option.splits sum.splits prod.splits)
qed

text \<open>
  Claim C1. A message with an empty \<open>Key()\<close> arrives at \<open>JoinMerge\<close>: the pipeline shuts
  down and \<open>Run\<close> returns an error that mentions the row. The code does close \<open>sigCh\<close> and
  stores such an error in \<open>fatalErr\<close>, but \<open>Run\<close> returns no error on any schedule: the
  worker returns without \<open>wg.Done()\<close>, so \<open>wg.Wait()\<close> never returns, whichever input the
  message arrived on; and the only \<open>return\<close> of \<open>Run\<close> is \<open>return nil\<close>.
\<close>

theorem JoinMerge_empty_key_never_returns:
  "outcome (JoinMerge_Run lstmt rstmt visit levs revs oevs) \<noteq> Returned (Some e)
   \<and> JoinMerge_Run lstmt rstmt visit (Recv (SqlDriverMessageMap (mt\<lparr>Key := []\<rparr>)) # levs)
         [InClosed] oevs
       = \<lparr>sent = [], diags = [], outcome = NeverReturns,
          fatalErr = [JoinNoKey (Row (mt\<lparr>Key := []\<rparr>))], sigClosed = True\<rparr>
   \<and> JoinMerge_Run lstmt rstmt visit [InClosed]
         (Recv (SqlDriverMessageMap (mt\<lparr>Key := []\<rparr>)) # revs) oevs
       = \<lparr>sent = [], diags = [], outcome = NeverReturns,
          fatalErr = [JoinNoKey (Row (mt\<lparr>Key := []\<rparr>))], sigClosed = True\<rparr>"
proof -
  have "outcome (JoinMerge_Run lstmt rstmt visit levs revs oevs) \<noteq> Returned (Some e)"
    by (simp add: JoinMerge_Run_def Let_def run.defs stop_def emission_returns_nil
        split: prod.splits)
  moreover have "JoinMerge_Run lstmt rstmt visit
         (Recv (SqlDriverMessageMap (mt\<lparr>Key := []\<rparr>)) # levs) [InClosed] oevs
       = \<lparr>sent = [], diags = [], outcome = NeverReturns,
          fatalErr = [JoinNoKey (Row (mt\<lparr>Key := []\<rparr>))], sigClosed = True\<rparr>"
    by (simp add: JoinMerge_Run_def Let_def run.defs stop_def fatal_of_def)
  moreover have "JoinMerge_Run lstmt rstmt visit [InClosed]
         (Recv (SqlDriverMessageMap (mt\<lparr>Key := []\<rparr>)) # revs) oevs
       = \<lparr>sent = [], diags = [], outcome = NeverReturns,
          fatalErr = [JoinNoKey (Row (mt\<lparr>Key := []\<rparr>))], sigClosed = True\<rparr>"
    by (simp add: JoinMerge_Run_def Let_def run.defs stop_def fatal_of_def)
  ultimately show ?thesis by blast
qed

section \<open>Verification: JoinKey\<close>








section \<open>Verification: Projection\<close>

text \<open>
  Claim C5. A message that is neither a \<open>SqlDriverMessageMap\<close> nor a \<open>ContextUrlValues\<close>
  is logged and dropped. The code logs it and carries on (the handler returns true and
  the loop reads the next message), but it does not drop the row: \<open>outMsg\<close> is still
  \<open>nil\<close> when the handler reaches its send, and that \<open>nil\<close> message is sent downstream.
\<close>

theorem Projection_unknown_body_sends_nil:
  "projectionEvaluator eval newValue columns (OtherMessage t) (Some Taken)
     = \<lparr>emitted = [NilMessage], warnings = [Errorf ''could not project msg:  %T''],
        result = Some True\<rparr>
   \<and> sent (Projection_Run eval newValue columns (Recv (OtherMessage t) # Taken # evs))
       = NilMessage # sent (Projection_Run eval newValue columns evs)
   \<and> outcome (Projection_Run eval newValue columns (Recv (OtherMessage t) # Taken # evs))
       = outcome (Projection_Run eval newValue columns evs)"
  by (simp add: projectionEvaluator_def project_def Let_def)

lemma projectColumnMap_skips:
  "ParentIndex col < 0 \<Longrightarrow> projectColumnMap eval newValue mt acc col = acc"
  by (cases acc) (simp add: projectColumnMap_def)

lemma foldl_projectColumnMap_filter:
  "foldl (projectColumnMap eval newValue mt) acc columns
     = foldl (projectColumnMap eval newValue mt) acc (filter (\<lambda>col. 0 \<le> ParentIndex col) columns)"
  by (induction columns arbitrary: acc) (simp_all add: projectColumnMap_skips)

text \<open>
  Claim C4. A column with \<open>ParentIndex < 0\<close> is skipped for both input bodies. The case
  of \<open>SqlDriverMessageMap\<close> has the check (line 55): on every row the output is that of
  the columns with \<open>ParentIndex >= 0\<close> alone. The case of \<open>ContextUrlValues\<close> has none: the
  same column, on the same row \<open>{a: 1}\<close>, is left out of the output of a
  \<open>SqlDriverMessageMap\<close> and written to the output of a \<open>ContextUrlValues\<close>.
\<close>

theorem Projection_url_values_ignore_ParentIndex:
  "project eval newValue columns (SqlDriverMessageMap mt)
     = project eval newValue (filter (\<lambda>col. 0 \<le> ParentIndex col) columns) (SqlDriverMessageMap mt)
   \<and> project evalNode passValue [column ''a'' 0 (- 1) None]
       (SqlDriverMessageMap \<lparr>IdVal = 0, Values = [Some (IntValue 1)], ColIndex = [(''a'', 0)], Key = []\<rparr>)
     = (ContextSimple Map.empty, [])
   \<and> project evalNode passValue [column ''a'' 0 (- 1) None]
       (ContextUrlValues [''a'' \<mapsto> Some (IntValue 1)])
     = (ContextSimple [''a'' \<mapsto> Some (IntValue 1)], [])"
proof -
  have "project eval newValue columns (SqlDriverMessageMap mt)
     = project eval newValue (filter (\<lambda>col. 0 \<le> ParentIndex col) columns) (SqlDriverMessageMap mt)"
    using foldl_projectColumnMap_filter [of eval newValue mt "(Map.empty, [])" columns]
    by (simp add: project_def)
  moreover have "project evalNode passValue [column ''a'' 0 (- 1) None]
       (SqlDriverMessageMap \<lparr>IdVal = 0, Values = [Some (IntValue 1)], ColIndex = [(''a'', 0)], Key = []\<rparr>)
     = (ContextSimple Map.empty, [])"
    by (simp add: project_def projectColumnMap_def column_def)
  moreover have "project evalNode passValue [column ''a'' 0 (- 1) None]
       (ContextUrlValues [''a'' \<mapsto> Some (IntValue 1)])
     = (ContextSimple [''a'' \<mapsto> Some (IntValue 1)], [])"
    by (simp add: project_def projectColumnUrl_def guardFilters_def column_def Put_def)
  ultimately show ?thesis by blast
qed

text \<open>
  Claim C6 as stated fails: guard evaluation fails (\<open>ok = false\<close>) and the column is
  still suppressed, because the value that came with the failure is \<open>BoolValue false\<close>.
  The expression of the column itself evaluates to 2, so the column would be written
  if it were included.
\<close>

theorem guard_false_suppresses_counterexample:
  "snd (failingGuard (SqlDriverMessageMap rowAB) (Equals (Ident ''a'') (IntLit 0))) = False
   \<and> failingGuard (SqlDriverMessageMap rowAB) (Ident ''b'') = (Some (IntValue 2), True)
   \<and> project failingGuard passValue
        [guardedB] (SqlDriverMessageMap rowAB)
       = (ContextSimple Map.empty, [Errorf ''Could not evaluate if:   %v''])"
  by (simp add: failingGuard_def rowAB_def Row_def passValue_def project_def
      projectColumnMap_def guardFilters_def guardedB_def column_def)

text \<open>
  Claim C6, amended. For a column with a guard, on either input body: if the value the
  guard evaluates to is \<open>BoolValue false\<close> (whether or not the evaluation reports
  success), the column is suppressed: the output is unchanged. If the evaluation fails
  with any other value (and, for a \<open>SqlDriverMessageMap\<close>, the column is not dropped for
  \<open>ParentIndex < 0\<close>), the failure is logged and the column is processed as a column
  with no guard. For the row \<open>{a: 1, b: 2}\<close> and the columns \<open>a\<close> and \<open>b\<close> guarded by
  \<open>a == 0\<close>, the output is \<open>{a: 1}\<close>.
\<close>

theorem Projection_guard:
  "(Guard col = Some g \<and> fst (eval (SqlDriverMessageMap mt) g) = Some (BoolValue False)
      \<longrightarrow> fst (projectColumnMap eval newValue mt (data, ds) col) = data)
   \<and> (Guard col = Some g \<and> fst (eval (ContextUrlValues row) g) = Some (BoolValue False)
      \<longrightarrow> fst (projectColumnUrl eval row (data, ds) col) = data)
   \<and> (Guard col = Some g \<and> 0 \<le> ParentIndex col \<and> eval (SqlDriverMessageMap mt) g = (v, False)
        \<and> v \<noteq> Some (BoolValue False)
      \<longrightarrow> projectColumnMap eval newValue mt (data, ds) col
          = projectColumnMap eval newValue mt
              (data, ds @ [Errorf ''Could not evaluate if:   %v'']) (col\<lparr>Guard := None\<rparr>))
   \<and> (Guard col = Some g \<and> eval (ContextUrlValues row) g = (v, False)
        \<and> v \<noteq> Some (BoolValue False)
      \<longrightarrow> projectColumnUrl eval row (data, ds) col
          = projectColumnUrl eval row
              (data, ds @ [Errorf ''Could not evaluate if:   %v'']) (col\<lparr>Guard := None\<rparr>))
   \<and> project evalNode passValue
        [column ''a'' 0 0 None, guardedB] (SqlDriverMessageMap rowAB)
       = (ContextSimple [''a'' \<mapsto> Some (IntValue 1)], [])"
proof -
  have 1: "Guard col = Some g \<and> fst (eval (SqlDriverMessageMap mt) g) = Some (BoolValue False)
      \<longrightarrow> fst (projectColumnMap eval newValue mt (data, ds) col) = data"
    by (auto simp add: projectColumnMap_def guardFilters_def split: prod.splits)
  have 2: "Guard col = Some g \<and> fst (eval (ContextUrlValues row) g) = Some (BoolValue False)
      \<longrightarrow> fst (projectColumnUrl eval row (data, ds) col) = data"
    by (auto simp add: projectColumnUrl_def guardFilters_def split: prod.splits)
  have 3: "Guard col = Some g \<and> 0 \<le> ParentIndex col \<and> eval (SqlDriverMessageMap mt) g = (v, False)
        \<and> v \<noteq> Some (BoolValue False)
      \<longrightarrow> projectColumnMap eval newValue mt (data, ds) col
          = projectColumnMap eval newValue mt
              (data, ds @ [Errorf ''Could not evaluate if:   %v'']) (col\<lparr>Guard := None\<rparr>)"
    by (auto simp add: projectColumnMap_def guardFilters_def Put_def split: prod.splits option.splits Value.splits)
  have 4: "Guard col = Some g \<and> eval (ContextUrlValues row) g = (v, False)
        \<and> v \<noteq> Some (BoolValue False)
      \<longrightarrow> projectColumnUrl eval row (data, ds) col
          = projectColumnUrl eval row
              (data, ds @ [Errorf ''Could not evaluate if:   %v'']) (col\<lparr>Guard := None\<rparr>)"
    by (auto simp add: projectColumnUrl_def guardFilters_def Put_def split: prod.splits option.splits Value.splits)
  have 5: "project evalNode passValue
        [column ''a'' 0 0 None, guardedB] (SqlDriverMessageMap rowAB)
       = (ContextSimple [''a'' \<mapsto> Some (IntValue 1)], [])"
    by (simp add: rowAB_def Row_def passValue_def project_def
      projectColumnMap_def guardFilters_def guardedB_def column_def Put_def)
  from 1 2 3 4 5 show ?thesis by blast
qed

theorem Projection_guard_witness:
  "fst (evalNode (SqlDriverMessageMap rowAB) (Equals (Ident ''a'') (IntLit 0))) = Some (BoolValue False)
   \<and> fst (projectColumnMap evalNode passValue rowAB (Map.empty, []) guardedB) = Map.empty
   \<and> fst (evalNode (ContextUrlValues urlAB) (Equals (Ident ''a'') (IntLit 0))) = Some (BoolValue False)
   \<and> fst (projectColumnUrl evalNode urlAB (Map.empty, []) guardedB) = Map.empty
   \<and> nilGuard (SqlDriverMessageMap rowAB) (Equals (Ident ''a'') (IntLit 0)) = (None, False)
   \<and> projectColumnMap nilGuard passValue rowAB (Map.empty, []) guardedB
       = ([''b'' \<mapsto> Some (IntValue 2)], [Errorf ''Could not evaluate if:   %v''])
   \<and> nilGuard (ContextUrlValues urlAB) (Equals (Ident ''a'') (IntLit 0)) = (None, False)
   \<and> projectColumnUrl nilGuard urlAB (Map.empty, []) guardedB
       = ([''b'' \<mapsto> Some (IntValue 2)], [Errorf ''Could not evaluate if:   %v''])"
proof -
  let ?g = "Equals (Ident ''a'') (IntLit 0)"
  have g: "Guard guardedB = Some ?g" and p: "0 \<le> ParentIndex guardedB"
    by (simp_all add: guardedB_def column_def)
  have e1: "fst (evalNode (SqlDriverMessageMap rowAB) ?g) = Some (BoolValue False)"
    and e2: "fst (evalNode (ContextUrlValues urlAB) ?g) = Some (BoolValue False)"
    and n1: "nilGuard (SqlDriverMessageMap rowAB) ?g = (None, False)"
    and n2: "nilGuard (ContextUrlValues urlAB) ?g = (None, False)"
    by (simp_all add: rowAB_def urlAB_def Row_def passValue_def nilGuard_def)
  have r1: "projectColumnMap nilGuard passValue rowAB
        (Map.empty, [] @ [Errorf ''Could not evaluate if:   %v'']) (guardedB\<lparr>Guard := None\<rparr>)
      = ([''b'' \<mapsto> Some (IntValue 2)], [Errorf ''Could not evaluate if:   %v''])"
    and r2: "projectColumnUrl nilGuard urlAB
        (Map.empty, [] @ [Errorf ''Could not evaluate if:   %v'']) (guardedB\<lparr>Guard := None\<rparr>)
      = ([''b'' \<mapsto> Some (IntValue 2)], [Errorf ''Could not evaluate if:   %v''])"
    by (simp_all add: rowAB_def urlAB_def Row_def passValue_def nilGuard_def guardedB_def
        column_def projectColumnMap_def projectColumnUrl_def guardFilters_def Put_def)
  note T = Projection_guard [where col = guardedB and g = ?g and eval = evalNode
      and mt = rowAB and row = urlAB and data = Map.empty and ds = "[]" and newValue = passValue]
  note N = Projection_guard [where col = guardedB and g = ?g and eval = nilGuard
      and mt = rowAB and row = urlAB and data = Map.empty and ds = "[]" and newValue = passValue
      and v = None]
  from T g e1 have s1: "fst (projectColumnMap evalNode passValue rowAB (Map.empty, []) guardedB)
      = Map.empty" by blast
  from T g e2 have s2: "fst (projectColumnUrl evalNode urlAB (Map.empty, []) guardedB)
      = Map.empty" by blast
  from N g p n1 have k1: "projectColumnMap nilGuard passValue rowAB (Map.empty, []) guardedB
      = projectColumnMap nilGuard passValue rowAB
          (Map.empty, [] @ [Errorf ''Could not evaluate if:   %v'']) (guardedB\<lparr>Guard := None\<rparr>)"
    by blast
  from N g n2 have k2: "projectColumnUrl nilGuard urlAB (Map.empty, []) guardedB
      = projectColumnUrl nilGuard urlAB
          (Map.empty, [] @ [Errorf ''Could not evaluate if:   %v'']) (guardedB\<lparr>Guard := None\<rparr>)"
    by blast
  from e1 s1 e2 s2 n1 n2 k1 [unfolded r1] k2 [unfolded r2] show ?thesis by blast
qed

section \<open>Verification: sends and the signal channel\<close>

text \<open>
  Claim C8. Every blocking channel write of a task is in a \<open>select\<close> with \<open>SigChan()\<close>.
  The forward of \<open>JoinKey\<close> (line 97) and the emission of \<open>JoinMerge\<close> (line 273) are bare
  sends: once the signal channel is closed and no consumer takes the message, \<open>JoinKey\<close>
  with a keyed row in hand and \<open>JoinMerge\<close> with merged rows in hand never return. The
  handler of the projection does what the claim says: its send is in such a \<open>select\<close>
  and it returns false.
\<close>

theorem bare_sends_ignore_the_signal:
  "JoinKey_Run StringValue_ToString readColumn [''first'', ''last'']
       [Recv (SqlDriverMessageMap annLee), SigQuit]
     = \<lparr>sent = [], diags = [], outcome = NeverReturns\<rparr>
   \<and> emission (indexColumns rightStmt (indexColumns leftStmt []))
        (Columns leftStmt) (Columns rightStmt) 0 leftTable rightTable [SigQuit]
     = \<lparr>sent = [], diags = [], outcome = NeverReturns\<rparr>
   \<and> result (projectionEvaluator eval newValue columns msg (Some SigQuit)) = Some False"
proof -
  have "join_vals StringValue_ToString readColumn annLee [''first'', ''last'']
      = KeyVals [''ann'', ''lee'']"
    by (simp add: readColumn_def annLee_def Row_def StringValue_ToString_def)
  then have 1: "JoinKey_Run StringValue_ToString readColumn [''first'', ''last'']
       [Recv (SqlDriverMessageMap annLee), SigQuit]
     = \<lparr>sent = [], diags = [], outcome = NeverReturns\<rparr>"
    by (simp add: stop_def del: join_vals.simps)
  have ci: "indexColumns rightStmt (indexColumns leftStmt [])
     = [(''l.k'', 0), (''l.v'', 1), (''r.k'', 2), (''r.v'', 3)]"
    by (simp add: indexColumns_def leftStmt_def rightStmt_def column_def)
  have 2: "emission (indexColumns rightStmt (indexColumns leftStmt []))
        (Columns leftStmt) (Columns rightStmt) 0 leftTable rightTable [SigQuit]
     = \<lparr>sent = [], diags = [], outcome = NeverReturns\<rparr>"
    unfolding ci
    by (simp add: leftStmt_def rightStmt_def leftTable_def rightTable_def column_def kv_def
        mergePair_def NewSqlDriverMessageMap_def)
  have 3: "result (projectionEvaluator eval newValue columns msg (Some SigQuit)) = Some False"
    by (simp add: projectionEvaluator_def split: prod.splits)
  from 1 2 3 show ?thesis by blast
qed

end
